theory Spec2Isabelle
  imports Main "HOL-Library.Sublist"
begin

section \<open>JavaScript values\<close>

text \<open>
  The worker (\<^verbatim>\<open>src/worker.js\<close>) is untyped: the update it receives and the answer of the
  search API are whatever \<^verbatim>\<open>JSON.parse\<close> returns. The model keeps them as JSON values.

  \<^item> A string is the list of the bytes of its UTF-8 encoding (well-formed strings; a lone
    surrogate has no encoding and is outside the model).
  \<^item> A number is an integer; fractions are outside the model. JavaScript's numbers are
    doubles: the safe integers (\<open>\<bar>n\<bar> < 2^53\<close>) are exact and are printed in plain
    decimal, and only for them does the model print a number itself. What a larger
    magnitude prints as (rounded digits, exponent notation from \<open>10^21\<close>) is a parameter
    of the model.
  \<^item> An object is the association list of its own properties; where a key stands twice,
    the first entry is the property.
  \<^item> \<^verbatim>\<open>undefined\<close> is \<open>None\<close> of \<open>jsval\<close>.
\<close>

datatype json =
    JNull
  | JBool bool
  | JNum int
  | JStr string
  | JArr "json list"
  | JObj "(string \<times> json) list"

type_synonym jsval = "json option"

text \<open>What the code can throw: a \<^verbatim>\<open>TypeError\<close> (property of \<^verbatim>\<open>null\<close> or
  \<^verbatim>\<open>undefined\<close>, call of something that is no function, an object that has no primitive
  value), the \<^verbatim>\<open>SyntaxError\<close> of a body that is not JSON, the rejection of the global
  \<^verbatim>\<open>fetch\<close>, and the \<^verbatim>\<open>Error\<close> of line 81 with its message.\<close>

datatype exn = TypeError | SyntaxError | FetchRejected | Error string

text \<open>ToBoolean.\<close>

fun truthy :: "jsval \<Rightarrow> bool" where
  "truthy None = False"
| "truthy (Some JNull) = False"
| "truthy (Some (JBool b)) = b"
| "truthy (Some (JNum n)) = (n \<noteq> 0)"
| "truthy (Some (JStr s)) = (s \<noteq> [])"
| "truthy (Some (JArr xs)) = True"
| "truthy (Some (JObj kvs)) = True"

text \<open>The length of a string in UTF-16 code units, from its UTF-8 bytes: one unit for
  every byte that starts a character, and one more for a character of four bytes.\<close>

definition utf16_length :: "string \<Rightarrow> nat" where
  "utf16_length s =
     length (filter (\<lambda>c. \<not> (128 \<le> (of_char c :: nat) \<and> (of_char c :: nat) < 192)) s)
     + length (filter (\<lambda>c. 240 \<le> (of_char c :: nat)) s)"

text \<open>
  Property access \<^verbatim>\<open>v.k\<close>, for the property names the worker reads
  (\<^verbatim>\<open>message\<close>, \<^verbatim>\<open>text\<close>, \<^verbatim>\<open>chat\<close>, \<^verbatim>\<open>id\<close>, \<^verbatim>\<open>type\<close>, \<^verbatim>\<open>message_id\<close>,
  \<^verbatim>\<open>files\<close>, \<^verbatim>\<open>length\<close>, \<^verbatim>\<open>total_files\<close>, \<^verbatim>\<open>ok\<close>): none is an array index and, but for
  \<^verbatim>\<open>length\<close>, none is defined on a prototype. On \<^verbatim>\<open>null\<close> and \<^verbatim>\<open>undefined\<close> it throws.
\<close>

fun get_prop :: "jsval \<Rightarrow> string \<Rightarrow> exn + jsval" where
  "get_prop None k = Inl TypeError"
| "get_prop (Some JNull) k = Inl TypeError"
| "get_prop (Some (JObj kvs)) k = Inr (map_of kvs k)"
| "get_prop (Some (JArr xs)) k =
     Inr (if k = ''length'' then Some (JNum (int (length xs))) else None)"
| "get_prop (Some (JStr s)) k =
     Inr (if k = ''length'' then Some (JNum (int (utf16_length s))) else None)"
| "get_prop (Some (JBool b)) k = Inr None"
| "get_prop (Some (JNum n)) k = Inr None"

subsection \<open>Built-in functions\<close>

text \<open>
  Three built-ins are parameters of the model, since what they compute is outside it:
  \<^item> \<open>string_gt_zero s\<close>: whether the number that the string \<open>s\<close> converts to (ToNumber, a
    floating-point value or \<^verbatim>\<open>NaN\<close>) is greater than zero;
  \<^item> \<open>JSON_stringify v\<close>: the text of \<^verbatim>\<open>JSON.stringify(v, null, 2)\<close>;
  \<^item> \<open>number_to_string n\<close>: what a number that is no safe integer prints as.
  Every theorem holds for whatever these functions are.
\<close>

record builtins =
  string_gt_zero :: "string \<Rightarrow> bool"
  JSON_stringify :: "json \<Rightarrow> string"
  number_to_string :: "int \<Rightarrow> string"

subsection \<open>Conversion to a string\<close>

fun show_nat :: "nat \<Rightarrow> string" where
  "show_nat n =
     (if n < 10 then [''0123456789'' ! n]
      else show_nat (n div 10) @ [''0123456789'' ! (n mod 10)])"

declare show_nat.simps [simp del]

definition show_int :: "int \<Rightarrow> string" where
  "show_int i = (if i < 0 then CHR ''-'' # show_nat (nat (- i)) else show_nat (nat i))"

text \<open>\<^verbatim>\<open>Number.isSafeInteger\<close>: the integers that a double holds exactly and that
  JavaScript prints digit by digit.\<close>

definition safe_integer :: "int \<Rightarrow> bool" where
  "safe_integer n \<longleftrightarrow> - (2 ^ 53) < n \<and> n < 2 ^ 53"

text \<open>
  ToString of a parsed JSON value, as a template literal applies it. A safe integer is
  printed in decimal; any other number is printed by the built-in. An array is joined
  with commas, \<^verbatim>\<open>null\<close> elements giving the empty string. An object is
  \<^verbatim>\<open>[object Object]\<close>, unless it has an own property \<^verbatim>\<open>toString\<close>: that property is
  a JSON value and no function, the inherited \<^verbatim>\<open>valueOf\<close> returns the object itself, and
  the conversion throws a \<^verbatim>\<open>TypeError\<close>.
\<close>

fun js_to_string :: "builtins \<Rightarrow> json \<Rightarrow> exn + string"
  and join_elems :: "builtins \<Rightarrow> json list \<Rightarrow> exn + string" where
  "js_to_string B JNull = Inr ''null''"
| "js_to_string B (JBool b) = Inr (if b then ''true'' else ''false'')"
| "js_to_string B (JNum n) =
     Inr (if safe_integer n then show_int n else number_to_string B n)"
| "js_to_string B (JStr s) = Inr s"
| "js_to_string B (JArr xs) = join_elems B xs"
| "js_to_string B (JObj kvs) =
     (if ''toString'' \<in> fst ` set kvs then Inl TypeError else Inr ''[object Object]'')"
| "join_elems B [] = Inr []"
| "join_elems B (x # xs) =
     (case (if x = JNull then Inr [] else js_to_string B x) of
        Inl e \<Rightarrow> Inl e
      | Inr s \<Rightarrow>
          (if xs = [] then Inr s
           else (case join_elems B xs of Inl e \<Rightarrow> Inl e | Inr t \<Rightarrow> Inr (s @ '','' @ t))))"

text \<open>\<^verbatim>\<open>`${v}`\<close> for a value that may be \<^verbatim>\<open>undefined\<close>.\<close>

definition template_str :: "builtins \<Rightarrow> jsval \<Rightarrow> exn + string" where
  "template_str B v = (case v of None \<Rightarrow> Inr ''undefined'' | Some j \<Rightarrow> js_to_string B j)"

text \<open>\<^verbatim>\<open>v > 0\<close>: the value is made a primitive, then a number. \<^verbatim>\<open>undefined\<close> and an
  object without a primitive string other than \<^verbatim>\<open>[object Object]\<close> give \<^verbatim>\<open>NaN\<close>.\<close>

fun gt_zero :: "builtins \<Rightarrow> jsval \<Rightarrow> exn + bool" where
  "gt_zero B None = Inr False"
| "gt_zero B (Some JNull) = Inr False"
| "gt_zero B (Some (JBool b)) = Inr b"
| "gt_zero B (Some (JNum n)) = Inr (0 < n)"
| "gt_zero B (Some (JStr s)) = Inr (string_gt_zero B s)"
| "gt_zero B (Some (JArr xs)) =
     (case join_elems B xs of Inl e \<Rightarrow> Inl e | Inr s \<Rightarrow> Inr (string_gt_zero B s))"
| "gt_zero B (Some (JObj kvs)) =
     (if ''toString'' \<in> fst ` set kvs then Inl TypeError else Inr False)"

subsection \<open>String methods\<close>

text \<open>The white space and line terminators that \<^verbatim>\<open>trim\<close> removes, in UTF-8: U+0009 to
  U+000D, U+0020, U+00A0, U+1680, U+2000 to U+200A, U+2028, U+2029, U+202F, U+205F,
  U+3000 and U+FEFF.\<close>

definition white_space :: "string list" where
  "white_space =
     [[CHR 0x09], [CHR 0x0A], [CHR 0x0B], [CHR 0x0C], [CHR 0x0D], [CHR 0x20],
      [CHR 0xC2, CHR 0xA0],
      [CHR 0xE1, CHR 0x9A, CHR 0x80],
      [CHR 0xE2, CHR 0x80, CHR 0x80], [CHR 0xE2, CHR 0x80, CHR 0x81],
      [CHR 0xE2, CHR 0x80, CHR 0x82], [CHR 0xE2, CHR 0x80, CHR 0x83],
      [CHR 0xE2, CHR 0x80, CHR 0x84], [CHR 0xE2, CHR 0x80, CHR 0x85],
      [CHR 0xE2, CHR 0x80, CHR 0x86], [CHR 0xE2, CHR 0x80, CHR 0x87],
      [CHR 0xE2, CHR 0x80, CHR 0x88], [CHR 0xE2, CHR 0x80, CHR 0x89],
      [CHR 0xE2, CHR 0x80, CHR 0x8A],
      [CHR 0xE2, CHR 0x80, CHR 0xA8], [CHR 0xE2, CHR 0x80, CHR 0xA9],
      [CHR 0xE2, CHR 0x80, CHR 0xAF],
      [CHR 0xE2, CHR 0x81, CHR 0x9F],
      [CHR 0xE3, CHR 0x80, CHR 0x80],
      [CHR 0xEF, CHR 0xBB, CHR 0xBF]]"

text \<open>The number of bytes of the white-space character that \<open>s\<close> starts with, out of
  the encodings \<open>ws\<close>; 0 when it starts with none.\<close>

definition ws_len :: "string list \<Rightarrow> string \<Rightarrow> nat" where
  "ws_len ws s = (case find (\<lambda>w. prefix w s) ws of None \<Rightarrow> 0 | Some w \<Rightarrow> length w)"

fun strip_ws :: "string list \<Rightarrow> string \<Rightarrow> string" where
  "strip_ws ws [] = []"
| "strip_ws ws (c # cs) =
     (if ws_len ws (c # cs) = 0 then c # cs
      else strip_ws ws (drop (ws_len ws (c # cs) - 1) cs))"

text \<open>\<^verbatim>\<open>String.prototype.trim\<close>: white space is stripped from the start, then from the
  end (on the reversed string, against the reversed encodings).\<close>

definition trim :: "string \<Rightarrow> string" where
  "trim s = rev (strip_ws (map rev white_space) (rev (strip_ws white_space s)))"

text \<open>\<^verbatim>\<open>v.trim()\<close> on a value: only a string has the method.\<close>

fun call_trim :: "jsval \<Rightarrow> exn + string" where
  "call_trim (Some (JStr s)) = Inr (trim s)"
| "call_trim v = Inl TypeError"

text \<open>\<^verbatim>\<open>encodeURIComponent\<close>: letters, digits and \<^verbatim>\<open>- _ . ! ~ * ' ( )\<close> stay; every
  other byte of the UTF-8 encoding becomes \<^verbatim>\<open>%XX\<close>, in upper-case hexadecimal.\<close>

definition unreserved :: "char \<Rightarrow> bool" where
  "unreserved c \<longleftrightarrow>
     c \<in> set (''ABCDEFGHIJKLMNOPQRSTUVWXYZabcdefghijklmnopqrstuvwxyz0123456789-_.!~*()''
              @ [CHR 0x27])"

definition percent :: "char \<Rightarrow> string" where
  "percent c =
     [CHR ''%'', ''0123456789ABCDEF'' ! ((of_char c :: nat) div 16),
      ''0123456789ABCDEF'' ! ((of_char c :: nat) mod 16)]"

definition encodeURIComponent :: "string \<Rightarrow> string" where
  "encodeURIComponent s = concat (map (\<lambda>c. if unreserved c then [c] else percent c) s)"

section \<open>Outbound calls\<close>

text \<open>
  The body that \<^verbatim>\<open>sendMessage\<close> posts. The source serialises it with
  \<^verbatim>\<open>JSON.stringify\<close> (and \<^verbatim>\<open>reply_markup\<close> once more inside it); the model keeps the
  values that are serialised. \<open>msg_text\<close> is the field \<^verbatim>\<open>text\<close>. A field that is
  \<open>None\<close> is not in the body: \<^verbatim>\<open>reply_markup\<close> and \<^verbatim>\<open>reply_to_message_id\<close> when they
  are not set, \<^verbatim>\<open>chat_id\<close> when it is \<^verbatim>\<open>undefined\<close>.
\<close>

record send_payload =
  chat_id :: jsval
  msg_text :: string
  parse_mode :: string
  reply_markup :: "json option"
  reply_to_message_id :: "json option"

record out_request =
  req_url :: string
  req_method :: string
  req_headers :: "(string \<times> string) list"
  req_body :: "send_payload option"

text \<open>What the global \<^verbatim>\<open>fetch\<close> resolves to: the status, and what \<^verbatim>\<open>.json()\<close> gives
  (\<open>None\<close> when the body is not JSON and \<^verbatim>\<open>.json()\<close> rejects).\<close>

record fetch_response =
  resp_status :: nat
  resp_json :: "json option"

definition resp_ok :: "fetch_response \<Rightarrow> bool" where
  "resp_ok r \<longleftrightarrow> 200 \<le> resp_status r \<and> resp_status r \<le> 299"

datatype fetch_result = Rejects | Resolves fetch_response

text \<open>The network decides every outbound call: the call's position among the calls of
  this request, and the request sent, give its outcome.\<close>

type_synonym network = "nat \<Rightarrow> out_request \<Rightarrow> fetch_result"

text \<open>An asynchronous computation: it takes the outbound calls made so far and returns
  its result, or what it threw, with the calls made by then.\<close>

type_synonym 'a eff = "out_request list \<Rightarrow> (exn + 'a) \<times> out_request list"

definition ret :: "'a \<Rightarrow> 'a eff" where
  "ret x calls = (Inr x, calls)"

definition throw :: "exn \<Rightarrow> 'a eff" where
  "throw e calls = (Inl e, calls)"

definition lift :: "exn + 'a \<Rightarrow> 'a eff" where
  "lift r calls = (r, calls)"

definition bind :: "'a eff \<Rightarrow> ('a \<Rightarrow> 'b eff) \<Rightarrow> 'b eff" where
  "bind m f calls =
     (case m calls of
        (Inl e, calls') \<Rightarrow> (Inl e, calls')
      | (Inr x, calls') \<Rightarrow> f x calls')"

definition try_catch :: "'a eff \<Rightarrow> (exn \<Rightarrow> 'a eff) \<Rightarrow> 'a eff" where
  "try_catch m h calls =
     (case m calls of
        (Inl e, calls') \<Rightarrow> h e calls'
      | (Inr x, calls') \<Rightarrow> (Inr x, calls'))"

definition global_fetch :: "network \<Rightarrow> out_request \<Rightarrow> fetch_response eff" where
  "global_fetch net req calls =
     (case net (length calls) req of
        Rejects \<Rightarrow> (Inl FetchRejected, calls @ [req])
      | Resolves r \<Rightarrow> (Inr r, calls @ [req]))"

text \<open>The request of \<^verbatim>\<open>fetch(url)\<close>, and of \<^verbatim>\<open>fetch(url, init)\<close> with the \<^verbatim>\<open>init\<close> of
  lines 139 to 145.\<close>

definition get_request :: "string \<Rightarrow> out_request" where
  "get_request url = \<lparr>req_url = url, req_method = ''GET'', req_headers = [], req_body = None\<rparr>"

definition post_json :: "string \<Rightarrow> send_payload \<Rightarrow> out_request" where
  "post_json url payload =
     \<lparr>req_url = url, req_method = ''POST'',
      req_headers = [(''Content-Type'', ''application/json'')],
      req_body = Some payload\<rparr>"

definition response_json :: "fetch_response \<Rightarrow> exn + json" where
  "response_json r = (case resp_json r of None \<Rightarrow> Inl SyntaxError | Some j \<Rightarrow> Inr j)"

section \<open>The worker\<close>

text \<open>The functions of the worker, in the order of their calls. What they write to the
  console is not modelled: it changes neither the response nor the outbound calls.\<close>

record response =
  status :: nat
  body :: string
  headers :: "(string \<times> string) list"

text \<open>The inbound request: the path of its URL, its method, and what
  \<^verbatim>\<open>request.json()\<close> gives (\<open>None\<close> when it rejects).\<close>

record request =
  pathname :: string
  http_method :: string
  request_json :: "json option"

record env =
  BOT_TOKEN :: "string option"
  WORKER_URL :: "string option"

subsection \<open>sendMessage (lines 123 to 146)\<close>

definition sendMessage ::
  "network \<Rightarrow> string \<Rightarrow> jsval \<Rightarrow> string \<Rightarrow> jsval \<Rightarrow> jsval \<Rightarrow> unit eff" where
  "sendMessage net token chatId text replyMarkup replyToMessageId =
     (let apiUrl = ''https://api.telegram.org/bot'' @ token @ ''/sendMessage'';
          payload =
            \<lparr>chat_id = chatId, msg_text = text, parse_mode = ''HTML'',
             reply_markup = (if truthy replyMarkup then replyMarkup else None),
             reply_to_message_id = (if truthy replyToMessageId then replyToMessageId else None)\<rparr>
      in bind (global_fetch net (post_json apiUrl payload)) (\<lambda>_. ret ()))"

subsection \<open>handleUpdate (lines 51 to 113)\<close>

definition OK :: response where
  "OK = \<lparr>status = 200, body = ''OK'', headers = []\<rparr>"

text \<open>The label of the button: the bytes the source file holds between the quotes.\<close>

definition button_text :: string where
  "button_text =
     [CHR 0xC3, CHR 0xB0, CHR 0xC5, CHR 0xB8, CHR 0xE2, CHR 0x80, CHR 0x9D,
      CHR 0xE2, CHR 0x80, CHR 0x94] @ '' Get Results''"

text \<open>The condition of line 86:
  \<^verbatim>\<open>searchData && searchData.files && searchData.files.length > 0\<close>.\<close>

definition has_files :: "builtins \<Rightarrow> json \<Rightarrow> exn + bool" where
  "has_files B searchData =
     (if \<not> truthy (Some searchData) then Inr False
      else
        (case get_prop (Some searchData) ''files'' of
           Inl e \<Rightarrow> Inl e
         | Inr files \<Rightarrow>
             (if \<not> truthy files then Inr False
              else
                (case get_prop files ''length'' of
                   Inl e \<Rightarrow> Inl e
                 | Inr len \<Rightarrow> gt_zero B len))))"

text \<open>The \<^verbatim>\<open>try\<close> block, lines 77 to 104.\<close>

definition search_and_reply ::
  "builtins \<Rightarrow> network \<Rightarrow> string \<Rightarrow> jsval \<Rightarrow> jsval \<Rightarrow> string \<Rightarrow> unit eff" where
  "search_and_reply B net botToken message chatId query =
     (let searchUrl =
            ''https://tga-hd.api.hashhackers.com/files/search?q='' @ encodeURIComponent query
      in bind (global_fetch net (get_request searchUrl))
           (\<lambda>searchResponse.
              if \<not> resp_ok searchResponse then
                throw (Error (''API search failed with status: ''
                              @ show_nat (resp_status searchResponse)))
              else
                bind (lift (response_json searchResponse)) (\<lambda>searchData.
                bind (lift (has_files B searchData)) (\<lambda>found.
                  if found then
                    bind (lift (get_prop (Some searchData) ''total_files'')) (\<lambda>resultCount.
                    bind (lift (template_str B resultCount)) (\<lambda>count.
                      let responseText =
                            ''Found '' @ count @ '' result(s) for '' @ [CHR 0x22] @ query
                            @ [CHR 0x22] @ ''.'';
                          buttonUrl =
                            ''https://gods-eye.pages.dev/?q='' @ encodeURIComponent query
                            @ ''&t=files'';
                          replyMarkup =
                            JObj [(''inline_keyboard'',
                                   JArr [JArr [JObj [(''text'', JStr button_text),
                                                     (''url'', JStr buttonUrl)]]])]
                      in bind (lift (get_prop message ''message_id'')) (\<lambda>message_id.
                           sendMessage net botToken chatId responseText (Some replyMarkup)
                             message_id)))
                  else
                    (let responseText =
                           ''No results found for '' @ [CHR 0x22] @ query @ [CHR 0x22]
                           @ ''. Please try a different search term.''
                     in bind (lift (get_prop message ''message_id'')) (\<lambda>message_id.
                          sendMessage net botToken chatId responseText (Some JNull)
                            message_id))))))"

definition handleUpdate :: "builtins \<Rightarrow> network \<Rightarrow> json \<Rightarrow> string \<Rightarrow> response eff" where
  "handleUpdate B net update botToken =
     bind (lift (get_prop (Some update) ''message'')) (\<lambda>message.
       if \<not> truthy message then ret OK
       else
         bind (lift (get_prop message ''text'')) (\<lambda>text.
           if \<not> truthy text then ret OK
           else
             bind (lift (get_prop message ''chat'')) (\<lambda>chat.
             bind (lift (get_prop chat ''id'')) (\<lambda>chatId.
             bind (lift (get_prop chat ''type'')) (\<lambda>chatType.
             bind (lift (call_trim text)) (\<lambda>query.
               if chatType \<noteq> Some (JStr ''group'') \<and> chatType \<noteq> Some (JStr ''supergroup'')
               then
                 (if chatType = Some (JStr ''private'') then
                    bind (sendMessage net botToken chatId ''I only work in group chats.''
                            (Some JNull) (Some JNull))
                      (\<lambda>_. ret OK)
                  else ret OK)
               else if prefix ''/'' query \<or> query = [] then ret OK
               else
                 bind
                   (try_catch (search_and_reply B net botToken message chatId query)
                      (\<lambda>error.
                         sendMessage net botToken chatId
                           ''Sorry, something went wrong while searching.''
                           (Some JNull) (Some JNull)))
                   (\<lambda>_. ret OK)))))))"

subsection \<open>setWebhook (lines 154 to 178)\<close>

text \<open>The source never reads its first parameter, the URL of the request. Nothing
  catches what this function throws: a rejected call, a body that is not JSON or a
  body that is \<^verbatim>\<open>null\<close> leaves the worker as an exception.\<close>

definition setWebhook ::
  "builtins \<Rightarrow> network \<Rightarrow> string \<Rightarrow> string \<Rightarrow> env \<Rightarrow> response eff" where
  "setWebhook B net requestUrl botToken env =
     (if WORKER_URL env = None \<or> WORKER_URL env = Some [] then
        ret \<lparr>status = 500, body = ''WORKER_URL secret is not set'', headers = []\<rparr>
      else
        (let workerUrl = the (WORKER_URL env);
             webhookUrl = workerUrl;
             setWebhookApiUrl =
               ''https://api.telegram.org/bot'' @ botToken @ ''/setWebhook?url=''
               @ encodeURIComponent webhookUrl @ ''&drop_pending_updates=true''
         in bind (global_fetch net (get_request setWebhookApiUrl))
              (\<lambda>response.
                 bind (lift (response_json response)) (\<lambda>result.
                 bind (lift (get_prop (Some result) ''ok'')) (\<lambda>ok.
                   if truthy ok then
                     ret \<lparr>status = 200,
                          body = ''Webhook set successfully to '' @ webhookUrl @ [CHR 0x0A]
                                 @ ''<pre>'' @ JSON_stringify B result @ ''</pre>'',
                          headers = [(''Content-Type'', ''text/html'')]\<rparr>
                   else
                     ret \<lparr>status = 500,
                          body = ''Failed to set webhook.'' @ [CHR 0x0A]
                                 @ ''<pre>'' @ JSON_stringify B result @ ''</pre>'',
                          headers = [(''Content-Type'', ''text/html'')]\<rparr>)))))"

subsection \<open>fetch, the worker's entry point (lines 17 to 43)\<close>

definition fetch :: "builtins \<Rightarrow> network \<Rightarrow> request \<Rightarrow> env \<Rightarrow> response eff" where
  "fetch B net request env =
     (let path = pathname request in
      if BOT_TOKEN env = None \<or> BOT_TOKEN env = Some [] then
        ret \<lparr>status = 500, body = ''BOT_TOKEN secret is not set'', headers = []\<rparr>
      else
        (let botToken = the (BOT_TOKEN env) in
         if path = ''/setwebhook'' then setWebhook B net path botToken env
         else if http_method request = ''POST'' then
           try_catch
             (bind (lift (case request_json request of
                            None \<Rightarrow> Inl SyntaxError
                          | Some update \<Rightarrow> Inr update))
                (\<lambda>update. handleUpdate B net update botToken))
             (\<lambda>e. ret \<lparr>status = 400, body = ''Invalid request body'', headers = []\<rparr>)
         else
           ret \<lparr>status = 200,
                body = ''Hello! This is the Telegram bot worker. Use the /setwebhook endpoint to configure the bot.'',
                headers = []\<rparr>))"

section \<open>Observing a run\<close>

text \<open>The call that \<^verbatim>\<open>sendMessage\<close> makes for a payload, and the call of line 79 for a
  query.\<close>

definition send_call :: "string \<Rightarrow> send_payload \<Rightarrow> out_request" where
  "send_call token payload =
     post_json (''https://api.telegram.org/bot'' @ token @ ''/sendMessage'') payload"

definition search_call :: "string \<Rightarrow> out_request" where
  "search_call query =
     get_request (''https://tga-hd.api.hashhackers.com/files/search?q='' @ encodeURIComponent query)"

text \<open>A message without button that is no reply.\<close>

definition plain_message :: "jsval \<Rightarrow> string \<Rightarrow> send_payload" where
  "plain_message chatId text =
     \<lparr>chat_id = chatId, msg_text = text, parse_mode = ''HTML'', reply_markup = None,
      reply_to_message_id = None\<rparr>"

text \<open>The messages among the outbound calls, in order: only \<^verbatim>\<open>sendMessage\<close> posts a
  body.\<close>

definition sends :: "out_request list \<Rightarrow> send_payload list" where
  "sends calls = List.map_filter req_body calls"

text \<open>
  \<open>text_message update message_id t chatId chatType\<close>: the update holds a message whose
  \<^verbatim>\<open>text\<close> is the string \<open>t\<close> and whose \<^verbatim>\<open>message_id\<close> is \<open>message_id\<close>, in a chat whose
  \<^verbatim>\<open>id\<close> is \<open>chatId\<close> and whose \<^verbatim>\<open>type\<close> is \<open>chatType\<close> (each of the three may be
  \<^verbatim>\<open>undefined\<close>). The update and the message may hold any other property.
\<close>

definition text_message :: "json \<Rightarrow> jsval \<Rightarrow> string \<Rightarrow> jsval \<Rightarrow> jsval \<Rightarrow> bool" where
  "text_message update message_id t chatId chatType \<longleftrightarrow>
     (case get_prop (Some update) ''message'' of
        Inl e \<Rightarrow> False
      | Inr message \<Rightarrow>
          get_prop message ''text'' = Inr (Some (JStr t)) \<and>
          get_prop message ''message_id'' = Inr message_id \<and>
          (case get_prop message ''chat'' of
             Inl e \<Rightarrow> False
           | Inr chat \<Rightarrow>
               get_prop chat ''id'' = Inr chatId \<and> get_prop chat ''type'' = Inr chatType))"

subsection \<open>Example inputs\<close>

definition example_builtins :: builtins where
  "example_builtins =
     \<lparr>string_gt_zero = (\<lambda>s. False), JSON_stringify = (\<lambda>v. []),
      number_to_string = (\<lambda>n. [])\<rparr>"

text \<open>The update of a message with id 7 in the chat -100.\<close>

definition example_update :: "string \<Rightarrow> string \<Rightarrow> json" where
  "example_update chat_type t =
     JObj [(''update_id'', JNum 10),
           (''message'',
            JObj [(''message_id'', JNum 7),
                  (''chat'', JObj [(''id'', JNum (- 100)), (''type'', JStr chat_type)]),
                  (''text'', JStr t)])]"

definition search_result :: "int \<Rightarrow> json list \<Rightarrow> fetch_result" where
  "search_result n files =
     Resolves \<lparr>resp_status = 200,
               resp_json = Some (JObj [(''total_files'', JNum n), (''files'', JArr files)])\<rparr>"

text \<open>The network that answers the calls in order with the given outcomes, and rejects
  every later call.\<close>

definition net_of :: "fetch_result list \<Rightarrow> network" where
  "net_of outcomes i req = (if i < length outcomes then outcomes ! i else Rejects)"

section \<open>Basic facts\<close>

lemma bind_lift_Inr [simp]: "bind (lift (Inr x)) f calls = f x calls"
  by (simp add: bind_def lift_def)

lemma bind_lift_Inl [simp]: "bind (lift (Inl e)) f calls = (Inl e, calls)"
  by (simp add: bind_def lift_def)

lemma ret_apply [simp]: "ret x calls = (Inr x, calls)"
  by (simp add: ret_def)

lemma throw_apply [simp]: "throw e calls = (Inl e, calls)"
  by (simp add: throw_def)

lemma global_fetch_eval:
  "global_fetch net req calls =
     (case net (length calls) req of
        Rejects \<Rightarrow> (Inl FetchRejected, calls @ [req])
      | Resolves r \<Rightarrow> (Inr r, calls @ [req]))"
  by (simp add: global_fetch_def)

text \<open>Only a value that is neither \<^verbatim>\<open>null\<close> nor \<^verbatim>\<open>undefined\<close> nor a primitive has a
  property other than \<^verbatim>\<open>length\<close>: it is an object, and truthy.\<close>

lemma get_prop_truthy:
  assumes "get_prop v k = Inr (Some x)" and "k \<noteq> ''length''"
  shows "truthy v"
  using assms by (cases "(v, k)" rule: get_prop.cases) auto

lemma sends_simps [simp]:
  "sends [] = []"
  "sends (send_call token p # calls) = p # sends calls"
  "sends (search_call q # calls) = sends calls"
  by (simp_all add: sends_def send_call_def search_call_def post_json_def get_request_def
      List.map_filter_simps)

subsection \<open>Evaluations\<close>

lemma trim_report: "trim ''report'' = ''report''"
  by code_simp

lemma trim_start: "trim '' /start '' = ''/start''"
  by code_simp

lemma trim_blank: "trim ''   '' = []"
  by code_simp

lemma show_int_3: "show_int 3 = ''3''"
  by code_simp


lemma template_str_safe_integer:
  assumes "safe_integer n"
  shows "template_str B (Some (JNum n)) = Inr (show_int n)"
  using assms by (simp add: template_str_def)

lemma encode_report: "encodeURIComponent ''report'' = ''report''"
  by code_simp

lemma text_message_example:
  "text_message (example_update ty t) (Some (JNum 7)) t (Some (JNum (- 100))) (Some (JStr ty))"
  by (simp add: text_message_def example_update_def)

subsection \<open>sendMessage\<close>

text \<open>\<^verbatim>\<open>sendMessage\<close> makes one call; it throws when the call rejects and returns when
  it resolves, without a look at the response.\<close>

lemma sendMessage_call:
  assumes "call = send_call token
                    \<lparr>chat_id = chatId, msg_text = text, parse_mode = ''HTML'',
                     reply_markup = (if truthy replyMarkup then replyMarkup else None),
                     reply_to_message_id = (if truthy replyTo then replyTo else None)\<rparr>"
  shows "sendMessage net token chatId text replyMarkup replyTo calls =
           (case net (length calls) call of
              Rejects \<Rightarrow> (Inl FetchRejected, calls @ [call])
            | Resolves r \<Rightarrow> (Inr (), calls @ [call]))"
  unfolding assms
  by (simp add: sendMessage_def send_call_def Let_def bind_def global_fetch_eval
      split: fetch_result.splits)

lemma sendMessage_plain:
  "sendMessage net token chatId text (Some JNull) (Some JNull) calls =
     (case net (length calls) (send_call token (plain_message chatId text)) of
        Rejects \<Rightarrow> (Inl FetchRejected, calls @ [send_call token (plain_message chatId text)])
      | Resolves r \<Rightarrow> (Inr (), calls @ [send_call token (plain_message chatId text)]))"
  by (rule sendMessage_call) (simp add: plain_message_def)

subsection \<open>The filters of handleUpdate\<close>

lemma handleUpdate_text_message:
  assumes "text_message update message_id t chatId chatType" and "t \<noteq> []"
  shows "\<exists>message. get_prop message ''message_id'' = Inr message_id \<and>
           handleUpdate B net update botToken calls =
           (if chatType \<noteq> Some (JStr ''group'') \<and> chatType \<noteq> Some (JStr ''supergroup'') then
              (if chatType = Some (JStr ''private'') then
                 bind (sendMessage net botToken chatId ''I only work in group chats.''
                         (Some JNull) (Some JNull))
                   (\<lambda>_. ret OK) calls
               else (Inr OK, calls))
            else if prefix ''/'' (trim t) \<or> trim t = [] then (Inr OK, calls)
            else
              bind
                (try_catch (search_and_reply B net botToken message chatId (trim t))
                   (\<lambda>error.
                      sendMessage net botToken chatId
                        ''Sorry, something went wrong while searching.''
                        (Some JNull) (Some JNull)))
                (\<lambda>_. ret OK) calls)"
proof -
  from assms(1) obtain message chat where
    m: "get_prop (Some update) ''message'' = Inr message"
    and t: "get_prop message ''text'' = Inr (Some (JStr t))"
    and i: "get_prop message ''message_id'' = Inr message_id"
    and c: "get_prop message ''chat'' = Inr chat"
    and ci: "get_prop chat ''id'' = Inr chatId"
    and ct: "get_prop chat ''type'' = Inr chatType"
    by (auto simp: text_message_def split: sum.splits)
  have "truthy message"
    using t by (rule get_prop_truthy) simp
  then show ?thesis
    using m t i c ci ct assms(2) by (intro exI [of _ message]) (simp add: handleUpdate_def)
qed

lemma handleUpdate_empty_text:
  assumes "text_message update message_id [] chatId chatType"
  shows "handleUpdate B net update botToken calls = (Inr OK, calls)"
proof -
  from assms obtain message where
    m: "get_prop (Some update) ''message'' = Inr message"
    and t: "get_prop message ''text'' = Inr (Some (JStr []))"
    by (auto simp: text_message_def split: sum.splits)
  have "truthy message"
    using t by (rule get_prop_truthy) simp
  then show ?thesis
    using m t by (simp add: handleUpdate_def)
qed

lemma handleUpdate_private:
  assumes "text_message update message_id t chatId (Some (JStr ''private''))" and "t \<noteq> []"
  shows "handleUpdate B net update botToken calls =
           bind (sendMessage net botToken chatId ''I only work in group chats.''
                   (Some JNull) (Some JNull))
             (\<lambda>_. ret OK) calls"
  using handleUpdate_text_message [OF assms, of B net botToken calls] by auto

lemma handleUpdate_other:
  assumes "text_message update message_id t chatId chatType" and "t \<noteq> []"
    and "chatType \<noteq> Some (JStr ''group'')" and "chatType \<noteq> Some (JStr ''supergroup'')"
    and "chatType \<noteq> Some (JStr ''private'')"
  shows "handleUpdate B net update botToken calls = (Inr OK, calls)"
  using handleUpdate_text_message [OF assms(1,2), of B net botToken calls] assms(3-) by auto

lemma handleUpdate_command:
  assumes "text_message update message_id t chatId chatType" and "t \<noteq> []"
    and "chatType = Some (JStr ''group'') \<or> chatType = Some (JStr ''supergroup'')"
    and "prefix ''/'' (trim t) \<or> trim t = []"
  shows "handleUpdate B net update botToken calls = (Inr OK, calls)"
  using handleUpdate_text_message [OF assms(1,2), of B net botToken calls] assms(3-) by auto

lemma handleUpdate_search:
  assumes "text_message update message_id t chatId chatType" and "t \<noteq> []"
    and "chatType = Some (JStr ''group'') \<or> chatType = Some (JStr ''supergroup'')"
    and "\<not> prefix ''/'' (trim t)" and "trim t \<noteq> []"
  shows "\<exists>message. get_prop message ''message_id'' = Inr message_id \<and>
           handleUpdate B net update botToken calls =
             bind
               (try_catch (search_and_reply B net botToken message chatId (trim t))
                  (\<lambda>error.
                     sendMessage net botToken chatId
                       ''Sorry, something went wrong while searching.''
                       (Some JNull) (Some JNull)))
               (\<lambda>_. ret OK) calls"
  using handleUpdate_text_message [OF assms(1,2), of B net botToken calls] assms(3-) by auto

subsection \<open>The guarded block\<close>

lemma search_and_reply_fails:
  assumes "case net (length calls) (search_call query) of
             Rejects \<Rightarrow> True
           | Resolves r \<Rightarrow> \<not> resp_ok r \<or> resp_json r = None"
  shows "\<exists>e. search_and_reply B net botToken message chatId query calls =
               (Inl e, calls @ [search_call query])"
  using assms
  by (auto simp: search_and_reply_def search_call_def bind_def global_fetch_eval
      response_json_def lift_def split: fetch_result.splits)


lemma has_files_nonempty:
  assumes "get_prop (Some searchData) ''files'' = Inr (Some (JArr files))" and "files \<noteq> []"
  shows "has_files B searchData = Inr True"
proof -
  have "truthy (Some searchData)"
    using assms(1) by (rule get_prop_truthy) simp
  then show ?thesis
    using assms by (simp add: has_files_def)
qed

lemma search_and_reply_found:
  assumes "net (length calls) (search_call query) = Resolves r" and "resp_ok r"
    and "resp_json r = Some searchData"
    and "has_files B searchData = Inr True"
    and "get_prop (Some searchData) ''total_files'' = Inr total_files"
    and "template_str B total_files = Inr shown"
    and "get_prop message ''message_id'' = Inr message_id"
  shows "search_and_reply B net botToken message chatId query calls =
           sendMessage net botToken chatId
             (''Found '' @ shown @ '' result(s) for '' @ [CHR 0x22] @ query @ [CHR 0x22] @ ''.'')
             (Some (JObj [(''inline_keyboard'',
                JArr [JArr [JObj [(''text'', JStr button_text),
                  (''url'', JStr (''https://gods-eye.pages.dev/?q='' @ encodeURIComponent query
                                  @ ''&t=files''))]]])]))
             message_id (calls @ [search_call query])"
  using assms
  by (simp add: search_and_reply_def search_call_def bind_def global_fetch_eval
      response_json_def lift_def Let_def)


text \<open>Once the search has answered and a reply is sent, the apology follows only if the
  call of the reply rejects; the handler throws only if the call of the apology rejects
  too.\<close>

lemma guarded_reply:
  assumes "search_and_reply B net botToken message chatId query calls =
             sendMessage net botToken chatId text replyMarkup replyTo (calls @ [sc])"
    and reply: "reply = send_call botToken
                  \<lparr>chat_id = chatId, msg_text = text, parse_mode = ''HTML'',
                   reply_markup = (if truthy replyMarkup then replyMarkup else None),
                   reply_to_message_id = (if truthy replyTo then replyTo else None)\<rparr>"
    and apology: "apology = send_call botToken
                    (plain_message chatId ''Sorry, something went wrong while searching.'')"
  shows "bind
           (try_catch (search_and_reply B net botToken message chatId query)
              (\<lambda>error.
                 sendMessage net botToken chatId
                   ''Sorry, something went wrong while searching.''
                   (Some JNull) (Some JNull)))
           (\<lambda>_. ret OK) calls =
         (case net (Suc (length calls)) reply of
            Resolves r \<Rightarrow> (Inr OK, calls @ [sc, reply])
          | Rejects \<Rightarrow>
              (case net (Suc (Suc (length calls))) apology of
                 Resolves r \<Rightarrow> (Inr OK, calls @ [sc, reply, apology])
               | Rejects \<Rightarrow> (Inl FetchRejected, calls @ [sc, reply, apology])))"
proof -
  have s1: "sendMessage net botToken chatId text replyMarkup replyTo cs =
              (case net (length cs) reply of
                 Rejects \<Rightarrow> (Inl FetchRejected, cs @ [reply])
               | Resolves r \<Rightarrow> (Inr (), cs @ [reply]))" for cs
    by (rule sendMessage_call [OF reply])
  have s2: "sendMessage net botToken chatId ''Sorry, something went wrong while searching.''
              (Some JNull) (Some JNull) cs =
              (case net (length cs) apology of
                 Rejects \<Rightarrow> (Inl FetchRejected, cs @ [apology])
               | Resolves r \<Rightarrow> (Inr (), cs @ [apology]))" for cs
    unfolding apology by (rule sendMessage_plain)
  show ?thesis
    by (simp add: bind_def try_catch_def assms(1) s1 s2 split: fetch_result.splits)
qed

text \<open>When the search fails, the apology is the only message.\<close>

lemma guarded_failure:
  assumes "search_and_reply B net botToken message chatId query calls = (Inl e, calls @ [sc])"
    and apology: "apology = send_call botToken
                    (plain_message chatId ''Sorry, something went wrong while searching.'')"
  shows "bind
           (try_catch (search_and_reply B net botToken message chatId query)
              (\<lambda>error.
                 sendMessage net botToken chatId
                   ''Sorry, something went wrong while searching.''
                   (Some JNull) (Some JNull)))
           (\<lambda>_. ret OK) calls =
         (case net (Suc (length calls)) apology of
            Resolves r \<Rightarrow> (Inr OK, calls @ [sc, apology])
          | Rejects \<Rightarrow> (Inl FetchRejected, calls @ [sc, apology]))"
proof -
  have s2: "sendMessage net botToken chatId ''Sorry, something went wrong while searching.''
              (Some JNull) (Some JNull) cs =
              (case net (length cs) apology of
                 Rejects \<Rightarrow> (Inl FetchRejected, cs @ [apology])
               | Resolves r \<Rightarrow> (Inr (), cs @ [apology]))" for cs
    unfolding apology by (rule sendMessage_plain)
  show ?thesis
    by (simp add: bind_def try_catch_def assms(1) s2 split: fetch_result.splits)
qed

subsection \<open>The answer on the update route\<close>

text \<open>What \<^verbatim>\<open>handleUpdate\<close> returns is the handler's answer; what it throws becomes
  status 400.\<close>

lemma fetch_update_route:
  assumes "BOT_TOKEN env = Some botToken" and "botToken \<noteq> []"
    and "pathname request \<noteq> ''/setwebhook''"
    and "http_method request = ''POST''"
    and "request_json request = Some update"
  shows "fetch B net request env calls =
           (case handleUpdate B net update botToken calls of
              (Inl e, calls') \<Rightarrow>
                (Inr \<lparr>status = 400, body = ''Invalid request body'', headers = []\<rparr>, calls')
            | (Inr resp, calls') \<Rightarrow> (Inr resp, calls'))"
  using assms by (simp add: fetch_def try_catch_def split: prod.splits sum.splits)

text \<open>As long as no call of \<^verbatim>\<open>sendMessage\<close> rejects, a text message is acknowledged with
  \<^verbatim>\<open>OK\<close>, whatever the search does.\<close>

lemma guarded_block_returns:
  assumes "\<And>i p. net i (send_call botToken p) \<noteq> Rejects"
  shows "fst (bind
           (try_catch (search_and_reply B net botToken message chatId query)
              (\<lambda>error.
                 sendMessage net botToken chatId
                   ''Sorry, something went wrong while searching.''
                   (Some JNull) (Some JNull)))
           (\<lambda>_. ret OK) calls) = Inr OK"
proof (cases "search_and_reply B net botToken message chatId query calls")
  case (Pair res calls')
  show ?thesis
  proof (cases res)
    case (Inl e)
    with Pair assms [of "length calls'"
        "plain_message chatId ''Sorry, something went wrong while searching.''"]
    show ?thesis
      by (simp add: bind_def try_catch_def sendMessage_plain split: fetch_result.splits)
  next
    case (Inr u)
    with Pair show ?thesis
      by (simp add: bind_def try_catch_def)
  qed
qed

lemma handleUpdate_ok_when_sends_resolve:
  assumes "text_message update message_id t chatId chatType"
    and "\<And>i p. net i (send_call botToken p) \<noteq> Rejects"
  shows "fst (handleUpdate B net update botToken calls) = Inr OK"
proof (cases "t = []")
  case True
  with assms(1) show ?thesis
    by (simp add: handleUpdate_empty_text)
next
  case False
  from handleUpdate_text_message [OF assms(1) False, of B net botToken calls]
  obtain message where
    h: "handleUpdate B net update botToken calls =
           (if chatType \<noteq> Some (JStr ''group'') \<and> chatType \<noteq> Some (JStr ''supergroup'') then
              (if chatType = Some (JStr ''private'') then
                 bind (sendMessage net botToken chatId ''I only work in group chats.''
                         (Some JNull) (Some JNull))
                   (\<lambda>_. ret OK) calls
               else (Inr OK, calls))
            else if prefix ''/'' (trim t) \<or> trim t = [] then (Inr OK, calls)
            else
              bind
                (try_catch (search_and_reply B net botToken message chatId (trim t))
                   (\<lambda>error.
                      sendMessage net botToken chatId
                        ''Sorry, something went wrong while searching.''
                        (Some JNull) (Some JNull)))
                (\<lambda>_. ret OK) calls)"
    by blast
  have notice: "fst (bind (sendMessage net botToken chatId ''I only work in group chats.''
                         (Some JNull) (Some JNull)) (\<lambda>_. ret OK) calls) = Inr OK"
    using assms(2) [of "length calls" "plain_message chatId ''I only work in group chats.''"]
    by (simp add: bind_def sendMessage_plain split: fetch_result.splits)
  show ?thesis
    unfolding h
    using notice
      guarded_block_returns [where net = net and botToken = botToken and B = B
        and message = message and chatId = chatId and query = "trim t" and calls = calls,
        OF assms(2)]
    by simp
qed

section \<open>The entry point\<close>

text \<open>
  Claim C3. For every request, on any route, if the bot credential \<^verbatim>\<open>BOT_TOKEN\<close> is
  absent, the handler answers with status 500 and the body
  \<^verbatim>\<open>BOT_TOKEN secret is not set\<close>, and makes no outbound call: the list of calls it
  returns is the list it started with.
\<close>

theorem missing_token_500:
  assumes "BOT_TOKEN env = None"
  shows "fetch B net request env calls =
           (Inr \<lparr>status = 500, body = ''BOT_TOKEN secret is not set'', headers = []\<rparr>, calls)"
  using assms by (simp add: fetch_def)

theorem missing_token_500_witness:
  "BOT_TOKEN \<lparr>BOT_TOKEN = None, WORKER_URL = Some ''https://worker.example''\<rparr> = None \<and>
   fetch example_builtins (net_of [])
     \<lparr>pathname = ''/setwebhook'', http_method = ''GET'', request_json = None\<rparr>
     \<lparr>BOT_TOKEN = None, WORKER_URL = Some ''https://worker.example''\<rparr> [] =
     (Inr \<lparr>status = 500, body = ''BOT_TOKEN secret is not set'', headers = []\<rparr>, [])"
  using missing_token_500 [of "\<lparr>BOT_TOKEN = None, WORKER_URL = Some ''https://worker.example''\<rparr>"
      example_builtins "net_of []"
      "\<lparr>pathname = ''/setwebhook'', http_method = ''GET'', request_json = None\<rparr>" "[]"]
  by simp

text \<open>
  Claim C4. For every POST request on a path other than the setup path whose body fails
  to parse as JSON, the handler answers with status 400 and the body
  \<^verbatim>\<open>Invalid request body\<close>, and makes no outbound call. The update route is reached
  with the credential present (claim C3 is the other case).
\<close>

theorem malformed_body_400:
  assumes "BOT_TOKEN env = Some botToken" and "botToken \<noteq> []"
    and "pathname request \<noteq> ''/setwebhook''"
    and "http_method request = ''POST''"
    and "request_json request = None"
  shows "fetch B net request env calls =
           (Inr \<lparr>status = 400, body = ''Invalid request body'', headers = []\<rparr>, calls)"
  using assms by (simp add: fetch_def try_catch_def)

theorem malformed_body_400_witness:
  "fetch example_builtins (net_of [])
     \<lparr>pathname = ''/'', http_method = ''POST'', request_json = None\<rparr>
     \<lparr>BOT_TOKEN = Some ''TOKEN'', WORKER_URL = None\<rparr> [] =
   (Inr \<lparr>status = 400, body = ''Invalid request body'', headers = []\<rparr>, [])"
  using malformed_body_400 [of "\<lparr>BOT_TOKEN = Some ''TOKEN'', WORKER_URL = None\<rparr>" "''TOKEN''"
      "\<lparr>pathname = ''/'', http_method = ''POST'', request_json = None\<rparr>"
      example_builtins "net_of []" "[]"]
  by simp

text \<open>
  Claim C9. For every request on the setup route with the bot credential present and
  the target URL \<^verbatim>\<open>WORKER_URL\<close> absent, the handler answers with status 500 and the
  diagnostic \<^verbatim>\<open>WORKER_URL secret is not set\<close> before any outbound call: the list of
  calls is the one it started with.
\<close>

theorem missing_worker_url_500:
  assumes "BOT_TOKEN env = Some botToken" and "botToken \<noteq> []"
    and "pathname request = ''/setwebhook''"
    and "WORKER_URL env = None"
  shows "fetch B net request env calls =
           (Inr \<lparr>status = 500, body = ''WORKER_URL secret is not set'', headers = []\<rparr>, calls)"
  using assms by (simp add: fetch_def setWebhook_def)

theorem missing_worker_url_500_witness:
  "fetch example_builtins (net_of [])
     \<lparr>pathname = ''/setwebhook'', http_method = ''GET'', request_json = None\<rparr>
     \<lparr>BOT_TOKEN = Some ''TOKEN'', WORKER_URL = None\<rparr> [] =
   (Inr \<lparr>status = 500, body = ''WORKER_URL secret is not set'', headers = []\<rparr>, [])"
  using missing_worker_url_500 [of "\<lparr>BOT_TOKEN = Some ''TOKEN'', WORKER_URL = None\<rparr>"
      "''TOKEN''" "\<lparr>pathname = ''/setwebhook'', http_method = ''GET'', request_json = None\<rparr>"
      example_builtins "net_of []" "[]"]
  by simp

text \<open>
  Claim C1 says that every POST request whose body parses as JSON and reaches
  \<^verbatim>\<open>handleUpdate\<close> is answered with status 200, also when the search fails and when
  the apology itself cannot be sent. The code does not do that. The apology of line 109
  is sent from inside the \<^verbatim>\<open>catch\<close> block, so a rejection of its call leaves
  \<^verbatim>\<open>handleUpdate\<close> as an exception; the \<^verbatim>\<open>try\<close> of lines 33 to 39, written for the
  parse of the body, encloses the call of \<^verbatim>\<open>handleUpdate\<close> and turns the exception into
  status 400 with the body \<^verbatim>\<open>Invalid request body\<close>. Here the update is a well-formed
  message \<^verbatim>\<open>report\<close> in a group and every outbound call rejects. (While no call of
  \<^verbatim>\<open>sendMessage\<close> rejects the answer is \<^verbatim>\<open>OK\<close>: lemma
  \<open>handleUpdate_ok_when_sends_resolve\<close>.)
\<close>

theorem apology_failure_answers_400:
  "fetch example_builtins (net_of [])
     \<lparr>pathname = ''/'', http_method = ''POST'',
      request_json = Some (example_update ''group'' ''report'')\<rparr>
     \<lparr>BOT_TOKEN = Some ''TOKEN'', WORKER_URL = Some ''https://worker.example''\<rparr> [] =
   (Inr \<lparr>status = 400, body = ''Invalid request body'', headers = []\<rparr>,
    [search_call ''report'',
     send_call ''TOKEN''
       \<lparr>chat_id = Some (JNum (- 100)),
        msg_text = ''Sorry, something went wrong while searching.'',
        parse_mode = ''HTML'', reply_markup = None, reply_to_message_id = None\<rparr>])"
proof -
  have tm: "text_message (example_update ''group'' ''report'') (Some (JNum 7)) ''report''
              (Some (JNum (- 100))) (Some (JStr ''group''))"
    by (rule text_message_example)
  from handleUpdate_search [OF tm, of example_builtins "net_of []" "''TOKEN''" "[]"]
  obtain message where
    h: "handleUpdate example_builtins (net_of []) (example_update ''group'' ''report'')
          ''TOKEN'' [] =
          bind
            (try_catch
               (search_and_reply example_builtins (net_of []) ''TOKEN'' message
                  (Some (JNum (- 100))) ''report'')
               (\<lambda>error.
                  sendMessage (net_of []) ''TOKEN'' (Some (JNum (- 100)))
                    ''Sorry, something went wrong while searching.''
                    (Some JNull) (Some JNull)))
            (\<lambda>_. ret OK) []"
    by (auto simp: trim_report)
  have "\<exists>e. search_and_reply example_builtins (net_of []) ''TOKEN'' message
               (Some (JNum (- 100))) ''report'' [] =
             (Inl e, [] @ [search_call ''report''])"
    by (intro search_and_reply_fails) (simp add: net_of_def)
  then obtain e where
    "search_and_reply example_builtins (net_of []) ''TOKEN'' message
       (Some (JNum (- 100))) ''report'' [] =
     (Inl e, [] @ [search_call ''report''])"
    by blast
  from guarded_failure [OF this refl]
  have "handleUpdate example_builtins (net_of []) (example_update ''group'' ''report'')
          ''TOKEN'' [] =
          (Inl FetchRejected,
           [search_call ''report'',
            send_call ''TOKEN''
              (plain_message (Some (JNum (- 100)))
                 ''Sorry, something went wrong while searching.'')])"
    by (simp add: h net_of_def)
  then show ?thesis
    by (simp add: fetch_def try_catch_def bind_def lift_def plain_message_def)
qed

section \<open>The send helper\<close>

text \<open>
  Claim C2 says that a rejection of the outbound \<^verbatim>\<open>sendMessage\<close> request is not
  propagated to the caller of the send helper. It is: \<^verbatim>\<open>sendMessage\<close> awaits the
  request with no \<^verbatim>\<open>try\<close> around it, and its callers are the ones that catch
  (line 107 logs \<^verbatim>\<open>Error during search or send\<close>). With a request that rejects, the
  helper throws.
\<close>

theorem send_rejection_propagates:
  "fst (sendMessage (net_of [Rejects]) ''TOKEN'' (Some (JNum (- 100))) ''hello''
          (Some JNull) (Some JNull) []) = Inl FetchRejected"
  by (simp add: sendMessage_plain net_of_def)

text \<open>
  Claim C2, amended. The send helper makes exactly one outbound call. When that call
  rejects, the helper throws what the call rejected with; when the call resolves, the
  helper returns normally whatever the response is: it never reads the status or the
  body, so a delivery that the platform refuses with an error status is not reported to
  the caller.
\<close>

theorem send_returns_iff_request_resolves:
  assumes "call = send_call token
                    \<lparr>chat_id = chatId, msg_text = text, parse_mode = ''HTML'',
                     reply_markup = (if truthy replyMarkup then replyMarkup else None),
                     reply_to_message_id = (if truthy replyTo then replyTo else None)\<rparr>"
  shows "(net (length calls) call = Rejects \<longrightarrow>
            sendMessage net token chatId text replyMarkup replyTo calls =
              (Inl FetchRejected, calls @ [call]))
         \<and> (net (length calls) call = Resolves r \<longrightarrow>
            sendMessage net token chatId text replyMarkup replyTo calls =
              (Inr (), calls @ [call]))"
  by (simp add: sendMessage_call [OF assms])

theorem send_returns_iff_request_resolves_witness:
  "sendMessage (net_of [Rejects]) ''TOKEN'' (Some (JNum (- 100))) ''hello''
     (Some JNull) (Some JNull) [] =
     (Inl FetchRejected,
      [send_call ''TOKEN''
         \<lparr>chat_id = Some (JNum (- 100)), msg_text = ''hello'', parse_mode = ''HTML'',
          reply_markup = None, reply_to_message_id = None\<rparr>])
   \<and> sendMessage
       (net_of [Resolves \<lparr>resp_status = 403, resp_json = Some (JObj [(''ok'', JBool False)])\<rparr>])
       ''TOKEN'' (Some (JNum (- 100))) ''hello'' (Some JNull) (Some JNull) [] =
     (Inr (),
      [send_call ''TOKEN''
         \<lparr>chat_id = Some (JNum (- 100)), msg_text = ''hello'', parse_mode = ''HTML'',
          reply_markup = None, reply_to_message_id = None\<rparr>])"
  using send_returns_iff_request_resolves [of
      "send_call ''TOKEN''
         \<lparr>chat_id = Some (JNum (- 100)), msg_text = ''hello'', parse_mode = ''HTML'',
          reply_markup = None, reply_to_message_id = None\<rparr>"
      "''TOKEN''" "Some (JNum (- 100))" "''hello''" "Some JNull" "Some JNull"
      "net_of [Rejects]" "[]"]
    send_returns_iff_request_resolves [of
      "send_call ''TOKEN''
         \<lparr>chat_id = Some (JNum (- 100)), msg_text = ''hello'', parse_mode = ''HTML'',
          reply_markup = None, reply_to_message_id = None\<rparr>"
      "''TOKEN''" "Some (JNum (- 100))" "''hello''" "Some JNull" "Some JNull"
      "net_of [Resolves \<lparr>resp_status = 403, resp_json = Some (JObj [(''ok'', JBool False)])\<rparr>]"
      "[]" "\<lparr>resp_status = 403, resp_json = Some (JObj [(''ok'', JBool False)])\<rparr>"]
  by (simp add: net_of_def)

section \<open>Updates\<close>

text \<open>
  In the theorems of this section the handler starts with no outbound call made, so the
  calls it returns are the calls of this update, in order, and the network's answer to
  the first of them is \<open>net 0\<close>.
\<close>

text \<open>
  Claim C7. For every update that holds a text message (a non-empty \<^verbatim>\<open>text\<close>): if the
  chat type is \<^verbatim>\<open>private\<close>, the outbound calls are exactly one call of
  \<^verbatim>\<open>sendMessage\<close>, to that chat, with the text \<^verbatim>\<open>I only work in group chats.\<close>, so no
  search call is made; if the chat type is none of \<^verbatim>\<open>group\<close>, \<^verbatim>\<open>supergroup\<close> and
  \<^verbatim>\<open>private\<close>, no call is made at all and the response has status 200.
\<close>

theorem private_notice_other_silent:
  assumes "text_message update message_id t chatId chatType" and "t \<noteq> []"
  shows "(chatType = Some (JStr ''private'') \<longrightarrow>
            snd (handleUpdate B net update botToken []) =
              [send_call botToken
                 \<lparr>chat_id = chatId, msg_text = ''I only work in group chats.'',
                  parse_mode = ''HTML'', reply_markup = None, reply_to_message_id = None\<rparr>])
         \<and> (chatType \<noteq> Some (JStr ''group'') \<and> chatType \<noteq> Some (JStr ''supergroup'')
              \<and> chatType \<noteq> Some (JStr ''private'') \<longrightarrow>
            handleUpdate B net update botToken [] =
              (Inr \<lparr>status = 200, body = ''OK'', headers = []\<rparr>, []))"
proof (intro conjI impI)
  assume "chatType = Some (JStr ''private'')"
  with assms have "handleUpdate B net update botToken [] =
      bind (sendMessage net botToken chatId ''I only work in group chats.''
              (Some JNull) (Some JNull)) (\<lambda>_. ret OK) []"
    by (simp add: handleUpdate_private)
  then show "snd (handleUpdate B net update botToken []) =
      [send_call botToken
         \<lparr>chat_id = chatId, msg_text = ''I only work in group chats.'',
          parse_mode = ''HTML'', reply_markup = None, reply_to_message_id = None\<rparr>]"
    by (simp add: bind_def sendMessage_plain plain_message_def split: fetch_result.splits)
next
  assume "chatType \<noteq> Some (JStr ''group'') \<and> chatType \<noteq> Some (JStr ''supergroup'')
            \<and> chatType \<noteq> Some (JStr ''private'')"
  with assms have "handleUpdate B net update botToken [] = (Inr OK, [])"
    by (simp add: handleUpdate_other)
  then show "handleUpdate B net update botToken [] =
      (Inr \<lparr>status = 200, body = ''OK'', headers = []\<rparr>, [])"
    by (simp add: OK_def)
qed

theorem private_notice_other_silent_witness:
  "text_message (example_update ''private'' ''hello'') (Some (JNum 7)) ''hello''
     (Some (JNum (- 100))) (Some (JStr ''private''))
   \<and> snd (handleUpdate example_builtins (net_of []) (example_update ''private'' ''hello'') ''TOKEN'' []) =
     [send_call ''TOKEN''
        \<lparr>chat_id = Some (JNum (- 100)), msg_text = ''I only work in group chats.'',
         parse_mode = ''HTML'', reply_markup = None, reply_to_message_id = None\<rparr>]
   \<and> handleUpdate example_builtins (net_of []) (example_update ''channel'' ''hello'') ''TOKEN'' [] =
       (Inr \<lparr>status = 200, body = ''OK'', headers = []\<rparr>, [])"
  using private_notice_other_silent [OF text_message_example, of "''hello''" "''private''"
      example_builtins "net_of []" "''TOKEN''"]
    private_notice_other_silent [OF text_message_example, of "''hello''" "''channel''"
      example_builtins "net_of []" "''TOKEN''"]
  by (simp add: text_message_example)

text \<open>
  Claim C8. For every update of a group or supergroup whose trimmed text starts with
  \<^verbatim>\<open>/\<close> or is empty, no outbound call is made (neither a search nor a send) and the
  response has status 200.
\<close>

theorem command_or_empty_ignored:
  assumes "text_message update message_id t chatId chatType"
    and "chatType = Some (JStr ''group'') \<or> chatType = Some (JStr ''supergroup'')"
    and "prefix ''/'' (trim t) \<or> trim t = []"
  shows "handleUpdate B net update botToken [] =
           (Inr \<lparr>status = 200, body = ''OK'', headers = []\<rparr>, [])"
proof (cases "t = []")
  case True
  with assms(1) show ?thesis
    by (simp add: handleUpdate_empty_text OK_def)
next
  case False
  with assms show ?thesis
    by (simp add: handleUpdate_command OK_def)
qed

theorem command_or_empty_ignored_witness:
  "text_message (example_update ''group'' '' /start '') (Some (JNum 7)) '' /start ''
     (Some (JNum (- 100))) (Some (JStr ''group''))
   \<and> prefix ''/'' (trim '' /start '')
   \<and> handleUpdate example_builtins (net_of []) (example_update ''group'' '' /start '') ''TOKEN'' [] =
       (Inr \<lparr>status = 200, body = ''OK'', headers = []\<rparr>, [])
   \<and> trim ''   '' = []
   \<and> handleUpdate example_builtins (net_of []) (example_update ''supergroup'' ''   '') ''TOKEN'' [] =
       (Inr \<lparr>status = 200, body = ''OK'', headers = []\<rparr>, [])"
  using command_or_empty_ignored [OF text_message_example, of "''group''" "'' /start ''"
      example_builtins "net_of []" "''TOKEN''"]
    command_or_empty_ignored [OF text_message_example, of "''supergroup''" "''   ''"
      example_builtins "net_of []" "''TOKEN''"]
  by (simp add: trim_start trim_blank text_message_example)


text \<open>
  Claim C6. For every update that reaches the search, if the search call rejects or
  resolves with a status outside 200 to 299, the outbound calls are the search call and
  exactly one call of \<^verbatim>\<open>sendMessage\<close>: to the chat of the update, with the text
  \<^verbatim>\<open>Sorry, something went wrong while searching.\<close>, no button and no reply target. No
  other message is sent.
\<close>

theorem search_failure_apology:
  assumes "text_message update message_id t chatId chatType" and "t \<noteq> []"
    and "chatType = Some (JStr ''group'') \<or> chatType = Some (JStr ''supergroup'')"
    and "\<not> prefix ''/'' (trim t)" and "trim t \<noteq> []"
    and "case net 0 (search_call (trim t)) of Rejects \<Rightarrow> True | Resolves r \<Rightarrow> \<not> resp_ok r"
  shows "snd (handleUpdate B net update botToken []) =
           [search_call (trim t),
            send_call botToken
              \<lparr>chat_id = chatId, msg_text = ''Sorry, something went wrong while searching.'',
               parse_mode = ''HTML'', reply_markup = None, reply_to_message_id = None\<rparr>]
         \<and> sends (snd (handleUpdate B net update botToken [])) =
           [\<lparr>chat_id = chatId, msg_text = ''Sorry, something went wrong while searching.'',
             parse_mode = ''HTML'', reply_markup = None, reply_to_message_id = None\<rparr>]"
proof -
  from handleUpdate_search [OF assms(1-5), of B net botToken "[]"]
  obtain message where
    h: "handleUpdate B net update botToken [] =
          bind
            (try_catch (search_and_reply B net botToken message chatId (trim t))
               (\<lambda>error.
                  sendMessage net botToken chatId
                    ''Sorry, something went wrong while searching.''
                    (Some JNull) (Some JNull)))
            (\<lambda>_. ret OK) []"
    by blast
  have "\<exists>e. search_and_reply B net botToken message chatId (trim t) [] =
               (Inl e, [] @ [search_call (trim t)])"
    using assms(6) by (intro search_and_reply_fails) (simp split: fetch_result.splits)
  then obtain e where
    "search_and_reply B net botToken message chatId (trim t) [] = (Inl e, [] @ [search_call (trim t)])"
    by blast
  from guarded_failure [OF this refl]
  have "snd (handleUpdate B net update botToken []) =
          [search_call (trim t),
           send_call botToken
             (plain_message chatId ''Sorry, something went wrong while searching.'')]"
    by (simp add: h split: fetch_result.splits)
  then show ?thesis
    by (simp add: plain_message_def)
qed


theorem search_failure_apology_witness:
  "trim ''report'' = ''report''
   \<and> net_of [Rejects] 0 (search_call ''report'') = Rejects
   \<and> \<not> resp_ok \<lparr>resp_status = 503, resp_json = Some (JObj [])\<rparr>
   \<and> sends (snd (handleUpdate example_builtins (net_of [Rejects]) (example_update ''group'' ''report'')
                 ''TOKEN'' [])) =
     [\<lparr>chat_id = Some (JNum (- 100)),
       msg_text = ''Sorry, something went wrong while searching.'',
       parse_mode = ''HTML'', reply_markup = None, reply_to_message_id = None\<rparr>]
   \<and> sends (snd (handleUpdate example_builtins
                    (net_of [Resolves \<lparr>resp_status = 503, resp_json = Some (JObj [])\<rparr>,
                             Resolves \<lparr>resp_status = 200, resp_json = None\<rparr>])
                    (example_update ''supergroup'' ''report'') ''TOKEN'' [])) =
     [\<lparr>chat_id = Some (JNum (- 100)),
       msg_text = ''Sorry, something went wrong while searching.'',
       parse_mode = ''HTML'', reply_markup = None, reply_to_message_id = None\<rparr>]"
  using search_failure_apology [OF text_message_example, of "''report''" "''group''"
      "net_of [Rejects]" example_builtins "''TOKEN''"]
    search_failure_apology [OF text_message_example, of "''report''" "''supergroup''"
      "net_of [Resolves \<lparr>resp_status = 503, resp_json = Some (JObj [])\<rparr>,
               Resolves \<lparr>resp_status = 200, resp_json = None\<rparr>]" example_builtins "''TOKEN''"]
  by (simp add: trim_report net_of_def resp_ok_def)

text \<open>
  Claim C5. For every update that reaches the search, when the search resolves with a
  success status and a body whose \<^verbatim>\<open>files\<close> is a non-empty array and whose
  \<^verbatim>\<open>total_files\<close> is the safe integer \<open>n\<close> (a count that a double holds exactly, printed
  in plain decimal): exactly one message is sent whose text is
  \<^verbatim>\<open>Found n result(s) for "query".\<close>; it carries one row with one button whose URL is
  \<^verbatim>\<open>https://gods-eye.pages.dev/?q=\<close>, the encoded query, \<^verbatim>\<open>&t=files\<close>; and it is a
  reply to the \<^verbatim>\<open>message_id\<close> of the update (a truthy one, as every identifier of the
  platform is). The outbound calls are the search call and this message; the apology
  follows it only when the call of this message rejects. The spec's example is the
  witness: three files, \<^verbatim>\<open>total_files\<close> 3 and the query \<^verbatim>\<open>report\<close>.
\<close>

theorem results_reply:
  assumes "text_message update message_id t chatId chatType" and "t \<noteq> []"
    and "chatType = Some (JStr ''group'') \<or> chatType = Some (JStr ''supergroup'')"
    and "\<not> prefix ''/'' (trim t)" and "trim t \<noteq> []"
    and "net 0 (search_call (trim t)) = Resolves r" and "resp_ok r"
    and "resp_json r = Some searchData"
    and "get_prop (Some searchData) ''files'' = Inr (Some (JArr files))" and "files \<noteq> []"
    and "get_prop (Some searchData) ''total_files'' = Inr (Some (JNum n))"
    and "safe_integer n"
    and "truthy message_id"
    and "reply =
           \<lparr>chat_id = chatId,
            msg_text = ''Found '' @ show_int n @ '' result(s) for '' @ [CHR 0x22] @ trim t
                       @ [CHR 0x22] @ ''.'',
            parse_mode = ''HTML'',
            reply_markup =
              Some (JObj [(''inline_keyboard'',
                 JArr [JArr [JObj [(''text'', JStr button_text),
                   (''url'', JStr (''https://gods-eye.pages.dev/?q='' @ encodeURIComponent (trim t)
                                   @ ''&t=files''))]]])]),
            reply_to_message_id = message_id\<rparr>"
  shows "filter (\<lambda>p. msg_text p = msg_text reply)
           (sends (snd (handleUpdate B net update botToken []))) = [reply]
         \<and> snd (handleUpdate B net update botToken []) =
             search_call (trim t) # send_call botToken reply #
             (case net 1 (send_call botToken reply) of
                Resolves r' \<Rightarrow> []
              | Rejects \<Rightarrow>
                  [send_call botToken
                     \<lparr>chat_id = chatId,
                      msg_text = ''Sorry, something went wrong while searching.'',
                      parse_mode = ''HTML'', reply_markup = None,
                      reply_to_message_id = None\<rparr>])"
proof -
  from handleUpdate_search [OF assms(1-5), of B net botToken "[]"]
  obtain message where
    mid: "get_prop message ''message_id'' = Inr message_id"
    and h: "handleUpdate B net update botToken [] =
          bind
            (try_catch (search_and_reply B net botToken message chatId (trim t))
               (\<lambda>error.
                  sendMessage net botToken chatId
                    ''Sorry, something went wrong while searching.''
                    (Some JNull) (Some JNull)))
            (\<lambda>_. ret OK) []"
    by blast
  have found: "has_files B searchData = Inr True"
    using assms(9,10) by (rule has_files_nonempty)
  have shown: "template_str B (Some (JNum n)) = Inr (show_int n)"
    using assms(12) by (rule template_str_safe_integer)
  have net0: "net (length ([] :: out_request list)) (search_call (trim t)) = Resolves r"
    using assms(6) by simp
  note sr = search_and_reply_found [where net = net and calls = "[]" and botToken = botToken
      and chatId = chatId, OF net0 assms(7,8) found assms(11) shown mid]
  have reply: "send_call botToken reply = send_call botToken
     \<lparr>chat_id = chatId,
      msg_text = ''Found '' @ show_int n @ '' result(s) for '' @ [CHR 0x22] @ trim t
                 @ [CHR 0x22] @ ''.'',
      parse_mode = ''HTML'',
      reply_markup =
        (if truthy (Some (JObj [(''inline_keyboard'',
                 JArr [JArr [JObj [(''text'', JStr button_text),
                   (''url'', JStr (''https://gods-eye.pages.dev/?q='' @ encodeURIComponent (trim t)
                                   @ ''&t=files''))]]])]))
         then Some (JObj [(''inline_keyboard'',
                 JArr [JArr [JObj [(''text'', JStr button_text),
                   (''url'', JStr (''https://gods-eye.pages.dev/?q='' @ encodeURIComponent (trim t)
                                   @ ''&t=files''))]]])])
         else None),
      reply_to_message_id = (if truthy message_id then message_id else None)\<rparr>"
    using assms(13,14) by simp
  note g = guarded_reply [OF sr reply refl]
  have calls: "snd (handleUpdate B net update botToken []) =
      search_call (trim t) # send_call botToken reply #
      (case net 1 (send_call botToken reply) of
         Resolves r' \<Rightarrow> []
       | Rejects \<Rightarrow>
           [send_call botToken
              (plain_message chatId ''Sorry, something went wrong while searching.'')])"
    unfolding h g by (simp split: fetch_result.splits)
  have other: "msg_text (plain_message chatId ''Sorry, something went wrong while searching.'')
      \<noteq> msg_text reply"
    by (simp add: assms(14) plain_message_def)
  have "filter (\<lambda>p. msg_text p = msg_text reply)
          (sends (snd (handleUpdate B net update botToken []))) = [reply]"
    unfolding calls using other by (simp split: fetch_result.splits)
  then show ?thesis
    using calls by (simp add: plain_message_def split: fetch_result.splits)
qed


theorem results_reply_witness:
  "text_message (example_update ''group'' ''report'') (Some (JNum 7)) ''report''
     (Some (JNum (- 100))) (Some (JStr ''group''))
   \<and> trim ''report'' = ''report''
   \<and> safe_integer 3
   \<and> net_of [search_result 3 [JStr ''a'', JStr ''b'', JStr ''c''],
              Resolves \<lparr>resp_status = 200, resp_json = None\<rparr>] 0 (search_call ''report'') =
       search_result 3 [JStr ''a'', JStr ''b'', JStr ''c'']
   \<and> filter (\<lambda>p. msg_text p = ''Found 3 result(s) for '' @ [CHR 0x22] @ ''report'' @ [CHR 0x22] @ ''.'')
     (sends (snd (handleUpdate example_builtins
        (net_of [search_result 3 [JStr ''a'', JStr ''b'', JStr ''c''],
                 Resolves \<lparr>resp_status = 200, resp_json = None\<rparr>])
        (example_update ''group'' ''report'') ''TOKEN'' []))) =
     [\<lparr>chat_id = Some (JNum (- 100)),
       msg_text = ''Found 3 result(s) for '' @ [CHR 0x22] @ ''report'' @ [CHR 0x22] @ ''.'',
       parse_mode = ''HTML'',
       reply_markup =
         Some (JObj [(''inline_keyboard'',
            JArr [JArr [JObj [(''text'', JStr button_text),
              (''url'', JStr ''https://gods-eye.pages.dev/?q=report&t=files'')]]])]),
       reply_to_message_id = Some (JNum 7)\<rparr>]
   \<and> length (snd (handleUpdate example_builtins
        (net_of [search_result 3 [JStr ''a'', JStr ''b'', JStr ''c''],
                 Resolves \<lparr>resp_status = 200, resp_json = None\<rparr>])
        (example_update ''group'' ''report'') ''TOKEN'' [])) = 2"
  using results_reply [OF text_message_example, of "''report''" "''group''"
      "net_of [search_result 3 [JStr ''a'', JStr ''b'', JStr ''c''],
               Resolves \<lparr>resp_status = 200, resp_json = None\<rparr>]"
      "\<lparr>resp_status = 200,
        resp_json = Some (JObj [(''total_files'', JNum 3),
                                (''files'', JArr [JStr ''a'', JStr ''b'', JStr ''c''])])\<rparr>"
      "JObj [(''total_files'', JNum 3), (''files'', JArr [JStr ''a'', JStr ''b'', JStr ''c''])]"
      "[JStr ''a'', JStr ''b'', JStr ''c'']" 3
      "\<lparr>chat_id = Some (JNum (- 100)),
        msg_text = ''Found 3 result(s) for '' @ [CHR 0x22] @ ''report'' @ [CHR 0x22] @ ''.'',
        parse_mode = ''HTML'',
        reply_markup =
          Some (JObj [(''inline_keyboard'',
             JArr [JArr [JObj [(''text'', JStr button_text),
               (''url'', JStr ''https://gods-eye.pages.dev/?q=report&t=files'')]]])]),
        reply_to_message_id = Some (JNum 7)\<rparr>"
      example_builtins "''TOKEN''"]
  by (simp add: trim_report net_of_def search_result_def resp_ok_def show_int_3 encode_report
      text_message_example safe_integer_def)





end
